theory Spec2Isabelle
  imports Complex_Main "HOL-Library.AList" "HOL-Library.List_Lexorder" "HOL-Library.Char_ord"
    "HOL-Library.Multiset"
begin

section \<open>Data model\<close>

text \<open>
  Every callback of \<^verbatim>\<open>app.py\<close> starts from \<^verbatim>\<open>df = pd.DataFrame(data)\<close>, a table of
  named columns of equal length with the row index \<open>0, 1, ..., n - 1\<close>. A column of
  numeric dtype holds numbers or the missing value \<^verbatim>\<open>NaN\<close>; a column of object dtype
  holds text or the missing value \<^verbatim>\<open>None\<close>. The type of the numbers is a parameter
  of the column type: the cleaning and encoding code computes with finite numbers, the
  statistical tests also meet the two infinities.

  A number is a real. Quartiles, the means of imputation and the rounding to three
  decimals are computed exactly. Where the code compares a computed standard deviation
  with 0 the rounding of binary64 arithmetic decides, and there the arithmetic is
  binary64: the Z-score branch and the standardisation of features for training.
\<close>

datatype 'n column = NumCol "'n option list" | ObjCol "string option list"

type_synonym dataset = "(string \<times> real column) list"

text \<open>
  Exceptions are values. \<open>Unspecified\<close> marks the few places named below where the
  source does not determine the result and the model stops.
\<close>

datatype exn =
  KeyError string | KeyErrorInt nat | KeyErrorList "string list" | UnboundLocalError string
  | ValueError string | TypeError string | AttributeError string | Unspecified string

fun is_numeric_dtype :: "'n column \<Rightarrow> bool" where
  "is_numeric_dtype (NumCol xs) = True"
| "is_numeric_dtype (ObjCol xs) = False"

fun dropna :: "'a option list \<Rightarrow> 'a list" where
  "dropna [] = []"
| "dropna (None # xs) = dropna xs"
| "dropna (Some x # xs) = x # dropna xs"

definition mean :: "real list \<Rightarrow> real" where
  "mean xs = sum_list xs / real (length xs)"

text \<open>
  \<^verbatim>\<open>Series.quantile(q)\<close> with the default linear interpolation: the value at the
  fractional position \<open>(n - 1) * q\<close> of the sorted values.
\<close>

definition quantile :: "real list \<Rightarrow> real \<Rightarrow> real" where
  "quantile xs q =
     (let s = sort xs;
          pos = real (length xs - 1) * q;
          lo = nat \<lfloor>pos\<rfloor>;
          hi = min (lo + 1) (length xs - 1);
          frac = pos - real lo
      in s ! lo + (s ! hi - s ! lo) * frac)"

section \<open>Binary64 arithmetic\<close>

text \<open>
  The integer nearest to a real, a tie going to the even neighbour.
\<close>

definition round_half_even :: "real \<Rightarrow> int" where
  "round_half_even y =
     (let f = \<lfloor>y\<rfloor>; d = y - of_int f
      in if d < 1 / 2 then f else if d > 1 / 2 then f + 1 else if even f then f else f + 1)"

text \<open>
  A binary64 number has a significand of 53 bits. \<open>normalise\<close> scales a positive
  number by powers of 2 into the range of a 53-bit significand (its first argument
  bounds the number of steps), and \<open>fl x\<close> is the binary64 number nearest to \<open>x\<close>, a tie
  going to the even significand. The bounds of the exponent are left out: no overflow
  and no subnormal numbers.
\<close>

fun normalise :: "nat \<Rightarrow> real \<Rightarrow> int \<Rightarrow> real \<times> int" where
  "normalise 0 y e = (y, e)"
| "normalise (Suc k) y e =
     (if y < 2 ^ 52 then normalise k (y * 2) (e - 1)
      else if 2 ^ 53 \<le> y then normalise k (y / 2) (e + 1)
      else (y, e))"

definition pow2 :: "int \<Rightarrow> real" where
  "pow2 e = (if 0 \<le> e then 2 ^ nat e else 1 / 2 ^ nat (- e))"

definition fl :: "real \<Rightarrow> real" where
  "fl x =
     (if x = 0 then 0
      else sgn x * of_int (round_half_even (fst (normalise 2200 \<bar>x\<bar> 0))) *
           pow2 (snd (normalise 2200 \<bar>x\<bar> 0)))"

text \<open>
  \<^verbatim>\<open>Series.mean()\<close> and \<^verbatim>\<open>Series.std()\<close> on the non-null values of a float column are
  parameters: pandas computes them in binary64, and the order in which it adds depends
  on the length of the column and on the libraries installed.
\<close>

record float_stats =
  fmean :: "real list \<Rightarrow> real"
  fstd :: "real list \<Rightarrow> real"

text \<open>
  The two as pandas' \<^verbatim>\<open>nanops\<close> computes them when the values are added in row order,
  which is the order for a column of fewer than 8 values: the mean is the sum over the
  count, the sample standard deviation (one degree of freedom removed) the square root
  of the sum of the squared deviations from that mean over the count less one, every
  operation rounded.
\<close>

definition float_sum :: "real list \<Rightarrow> real" where
  "float_sum xs = foldl (\<lambda>a x. fl (a + x)) 0 xs"

definition nanmean :: "real list \<Rightarrow> real" where
  "nanmean xs = fl (float_sum xs / real (length xs))"

definition nanstd :: "real list \<Rightarrow> real" where
  "nanstd xs =
     fl (sqrt (fl (float_sum (map (\<lambda>x. fl (fl (nanmean xs - x) * fl (nanmean xs - x))) xs) /
                   real (length xs - 1))))"

definition binary64 :: float_stats where
  "binary64 = \<lparr>fmean = nanmean, fstd = nanstd\<rparr>"

text \<open>The binary64 number nearest to 0.1.\<close>

definition tenth :: real where
  "tenth = 3602879701896397 / 2 ^ 55"

section \<open>Outlier detection (\<^verbatim>\<open>handle_data_cleaning\<close>, branch of the detect button)\<close>

text \<open>
  \<^verbatim>\<open>threshold = outlier_threshold if outlier_threshold else 1.5\<close>: an absent threshold
  and the number 0 are both falsy in Python and both give the default.
\<close>

definition threshold_or :: "real \<Rightarrow> real option \<Rightarrow> real" where
  "threshold_or d outlier_threshold =
     (case outlier_threshold of None \<Rightarrow> d | Some t \<Rightarrow> if t = 0 then d else t)"

text \<open>
  The rows of \<^verbatim>\<open>df[(df[col] < lower_bound) | (df[col] > upper_bound)]\<close>: a comparison
  with \<^verbatim>\<open>NaN\<close> is false, so a missing cell is never selected.
\<close>

definition rows_where :: "(real \<Rightarrow> bool) \<Rightarrow> real option list \<Rightarrow> nat list" where
  "rows_where p col =
     filter (\<lambda>i. case col ! i of None \<Rightarrow> False | Some v \<Rightarrow> p v) [0..<length col]"

definition iqr_outlier_rows :: "real option \<Rightarrow> real option list \<Rightarrow> nat list" where
  "iqr_outlier_rows outlier_threshold col =
     (let col_data = dropna col;
          q1 = quantile col_data (1 / 4);
          q3 = quantile col_data (3 / 4);
          iqr = q3 - q1;
          threshold = threshold_or (3 / 2) outlier_threshold;
          lower_bound = q1 - threshold * iqr;
          upper_bound = q3 + threshold * iqr
      in rows_where (\<lambda>v. v < lower_bound \<or> v > upper_bound) col)"

text \<open>
  The Z-score branch returns the flagged rows together with the divisors of the
  divisions it performed, so that a division by zero would be visible in the result.
\<close>

definition zscore_outlier_rows ::
  "float_stats \<Rightarrow> real option \<Rightarrow> real option list \<Rightarrow> nat list \<times> real list" where
  "zscore_outlier_rows stats outlier_threshold col =
     (let col_data = dropna col;
          threshold = threshold_or 3 outlier_threshold;
          m = fmean stats col_data;
          sd = fstd stats col_data
      in if sd = 0 then ([], [])
         else (rows_where (\<lambda>v. \<bar>fl (fl (v - m) / sd)\<bar> > threshold) col, [sd]))"

text \<open>
  The state of the loop over \<^verbatim>\<open>outlier_cols\<close>: the local \<^verbatim>\<open>outlier_rows\<close> (unbound
  before the first assignment), \<^verbatim>\<open>outliers_dict\<close>, \<^verbatim>\<open>outlier_indices\<close>, and the log of
  divisors.
\<close>

record detect_state =
  outlier_rows :: "nat list option"
  outliers_dict :: "(string \<times> nat list) list"
  outlier_indices :: "nat set"
  divisors :: "real list"

definition detect_init :: detect_state where
  "detect_init = \<lparr>outlier_rows = None, outliers_dict = [], outlier_indices = {}, divisors = []\<rparr>"

definition record_rows :: "string \<Rightarrow> detect_state \<Rightarrow> exn + detect_state" where
  "record_rows col st =
     (case outlier_rows st of
        None \<Rightarrow> Inl (UnboundLocalError ''outlier_rows'')
      | Some rows \<Rightarrow>
          if rows \<noteq> []
          then Inr (st\<lparr>outliers_dict := AList.update col rows (outliers_dict st),
                       outlier_indices := outlier_indices st \<union> set rows\<rparr>)
          else Inr st)"

definition detect_column ::
  "float_stats \<Rightarrow> string \<Rightarrow> real option \<Rightarrow> dataset \<Rightarrow> string \<Rightarrow> detect_state
     \<Rightarrow> exn + detect_state" where
  "detect_column stats outlier_method outlier_threshold df col st =
     (case map_of df col of
        None \<Rightarrow> Inl (KeyError col)
      | Some (ObjCol xs) \<Rightarrow> Inr st
      | Some (NumCol xs) \<Rightarrow>
          if length (dropna xs) \<le> 1 then Inr st
          else if outlier_method = ''iqr''
          then record_rows col (st\<lparr>outlier_rows := Some (iqr_outlier_rows outlier_threshold xs)\<rparr>)
          else if outlier_method = ''zscore''
          then (let (rows, ds) = zscore_outlier_rows stats outlier_threshold xs
                in record_rows col (st\<lparr>outlier_rows := Some rows, divisors := divisors st @ ds\<rparr>))
          else record_rows col st)"

fun detect_loop ::
  "float_stats \<Rightarrow> string \<Rightarrow> real option \<Rightarrow> dataset \<Rightarrow> string list \<Rightarrow> detect_state
     \<Rightarrow> exn + detect_state" where
  "detect_loop stats outlier_method outlier_threshold df [] st = Inr st"
| "detect_loop stats outlier_method outlier_threshold df (col # cols) st =
     (case detect_column stats outlier_method outlier_threshold df col st of
        Inl e \<Rightarrow> Inl e
      | Inr st' \<Rightarrow> detect_loop stats outlier_method outlier_threshold df cols st')"

text \<open>
  The loop is run when at least one column is selected; the stored report is made from
  its final state.
\<close>

definition detect_outliers ::
  "float_stats \<Rightarrow> string \<Rightarrow> real option \<Rightarrow> dataset \<Rightarrow> string list \<Rightarrow> exn + detect_state" where
  "detect_outliers stats outlier_method outlier_threshold df outlier_cols =
     detect_loop stats outlier_method outlier_threshold df outlier_cols detect_init"



section \<open>Imputation (\<^verbatim>\<open>handle_data_cleaning\<close>, branch of the apply-imputation button)\<close>

text \<open>
  \<^verbatim>\<open>round(x, 3)\<close> on a NumPy float and \<^verbatim>\<open>Series.round(3)\<close>: the nearest multiple of
  0.001, a tie going to the even neighbour.
\<close>

definition round3 :: "real \<Rightarrow> real" where
  "round3 x = of_int (round_half_even (x * 1000)) / 1000"

text \<open>
  \<^verbatim>\<open>Series.mean()\<close> and \<^verbatim>\<open>Series.median()\<close> skip the missing cells and give
  \<^verbatim>\<open>NaN\<close> (here \<open>None\<close>) when no cell is left.
\<close>

definition series_mean :: "real option list \<Rightarrow> real option" where
  "series_mean col = (if dropna col = [] then None else Some (mean (dropna col)))"

definition median :: "real list \<Rightarrow> real" where
  "median xs =
     (let s = sort xs; n = length xs
      in if odd n then s ! (n div 2) else (s ! (n div 2 - 1) + s ! (n div 2)) / 2)"

definition series_median :: "real option list \<Rightarrow> real option" where
  "series_median col = (if dropna col = [] then None else Some (median (dropna col)))"

text \<open>
  \<^verbatim>\<open>Series.mode()\<close>: the most frequent non-null values, sorted; the code takes the
  first of them when there is one.
\<close>

definition series_mode :: "'a::linorder option list \<Rightarrow> 'a list" where
  "series_mode col =
     (let xs = dropna col; m = fold max (map (count_list xs) xs) 0
      in sort (filter (\<lambda>v. count_list xs v = m) (remdups xs)))"

text \<open>\<^verbatim>\<open>Series.fillna(v)\<close>; filling with \<^verbatim>\<open>NaN\<close> leaves the missing cells missing.\<close>

definition fillna :: "'a option \<Rightarrow> 'a option list \<Rightarrow> 'a option list" where
  "fillna v col = map (\<lambda>c. case c of None \<Rightarrow> v | Some x \<Rightarrow> Some x) col"

text \<open>
  \<^verbatim>\<open>KNNImputer(n_neighbors=5).fit_transform(df[[col]])\<close> on a single column: a row
  whose only feature is missing has no distance to any other row, and scikit-learn then
  fills it with the mean of the present values; present values are returned as they
  are. A column with no present value is dropped by the imputer, and building the
  series from the empty result raises.
\<close>

definition knn_fit_transform :: "real option list \<Rightarrow> exn + real list" where
  "knn_fit_transform col =
     (if dropna col = [] then Inl (ValueError ''Length of values does not match length of index'')
      else Inr (map (\<lambda>c. case c of None \<Rightarrow> mean (dropna col) | Some x \<Rightarrow> x) col))"

text \<open>
  One pass of the loop body for the column \<^verbatim>\<open>df[col]\<close>: \<open>Inr None\<close> when nothing is
  assigned to \<^verbatim>\<open>df_imputed[col]\<close>, \<open>Inr (Some c)\<close> when the column \<open>c\<close> is assigned.
\<close>

fun impute_column :: "string \<Rightarrow> real column \<Rightarrow> exn + real column option" where
  "impute_column method (NumCol xs) =
     (if None \<in> set xs
      then if method = ''mean''
           then Inr (Some (NumCol (fillna (map_option round3 (series_mean xs)) xs)))
           else if method = ''median''
           then Inr (Some (NumCol (fillna (map_option round3 (series_median xs)) xs)))
           else if method = ''knn''
           then (case knn_fit_transform xs of
                   Inl e \<Rightarrow> Inl e
                 | Inr ys \<Rightarrow> Inr (Some (NumCol (map (\<lambda>y. Some (round3 y)) ys))))
           else Inr None
      else Inr None)"
| "impute_column method (ObjCol xs) =
     (if None \<in> set xs
      then if method = ''mode''
           then Inr (Some (ObjCol (fillna (case series_mode xs of [] \<Rightarrow> None | m # _ \<Rightarrow> Some m) xs)))
           else Inr None
      else Inr None)"

fun impute_loop :: "string \<Rightarrow> dataset \<Rightarrow> string list \<Rightarrow> dataset \<Rightarrow> exn + dataset" where
  "impute_loop method df [] df_imputed = Inr df_imputed"
| "impute_loop method df (col # cols) df_imputed =
     (case map_of df col of
        None \<Rightarrow> Inl (KeyError col)
      | Some c \<Rightarrow>
          (case impute_column method c of
             Inl e \<Rightarrow> Inl e
           | Inr None \<Rightarrow> impute_loop method df cols df_imputed
           | Inr (Some c') \<Rightarrow> impute_loop method df cols (AList.update col c' df_imputed)))"

text \<open>With no column selected only the warning toast is opened and the table is as it was.\<close>

definition apply_imputation :: "string \<Rightarrow> dataset \<Rightarrow> string list \<Rightarrow> exn + dataset" where
  "apply_imputation method df selected_columns =
     (if selected_columns = [] then Inr df else impute_loop method df selected_columns df)"

section \<open>Encoding (\<^verbatim>\<open>apply_encoding\<close>, branches \<^verbatim>\<open>onehot\<close> and \<^verbatim>\<open>ordinal\<close>)\<close>

text \<open>
  The column to encode is chosen from a dropdown that \<^verbatim>\<open>update_encoding_column_options\<close>
  fills with the columns that are not numeric, so the two branches are modelled on
  object columns; on a numeric column the model stops with \<open>Unspecified\<close>. An exception
  is caught by the callback and shown as the message \<^verbatim>\<open>Error: ...\<close>.

  \<^verbatim>\<open>pd.get_dummies(df[column], prefix=column)\<close>: one indicator column for each distinct
  non-null value, in sorted order, named prefix, underscore, value. The indicators are
  written 1 and 0.
\<close>

definition get_dummies :: "string \<Rightarrow> string option list \<Rightarrow> dataset" where
  "get_dummies prefix xs =
     map (\<lambda>v. (prefix @ ''_'' @ v, NumCol (map (\<lambda>c. Some (if c = Some v then 1 else 0)) xs)))
       (sort (remdups (dropna xs)))"

text \<open>
  \<^verbatim>\<open>DataFrame.to_dict("records")\<close> makes one dictionary per row from the pairs of
  column name and cell, in column order. A name that occurs twice is one key: it keeps
  the place of its first column and the cell of its last. Seen by columns, the records
  are the table in which a later column of a known name takes the place of the earlier
  one.
\<close>

definition to_dict_records :: "dataset \<Rightarrow> dataset" where
  "to_dict_records cols = fold (\<lambda>(name, col). AList.update name col) cols []"

text \<open>
  \<^verbatim>\<open>encoded_df = pd.concat([df, dummies], axis=1)\<close>; the callback shows and stores
  \<^verbatim>\<open>encoded_df.to_dict("records")\<close>.
\<close>

definition onehot_encode :: "dataset \<Rightarrow> string \<Rightarrow> exn + dataset" where
  "onehot_encode df column =
     (case map_of df column of
        None \<Rightarrow> Inl (KeyError column)
      | Some (NumCol xs) \<Rightarrow> Inl (Unspecified ''numeric column'')
      | Some (ObjCol xs) \<Rightarrow> Inr (to_dict_records (df @ get_dummies column xs)))"

text \<open>
  \<^verbatim>\<open>{val: i for i, val in enumerate(vals)}\<close>: when a value occurs twice its last
  position wins.
\<close>

definition enumerate_map :: "'a list \<Rightarrow> ('a \<rightharpoonup> nat)" where
  "enumerate_map vals = map_of (rev (zip vals [0..<length vals]))"

text \<open>
  \<^verbatim>\<open>df[column].map(ordinal_map)\<close>: a cell whose value is not a key of the dictionary
  becomes \<^verbatim>\<open>NaN\<close>. The keys of a supplied order are strings, so a missing cell is
  never a key.
\<close>

definition map_cells :: "(string option \<rightharpoonup> nat) \<Rightarrow> string option list \<Rightarrow> real option list" where
  "map_cells ordinal_map xs = map (\<lambda>c. map_option real (ordinal_map c)) xs"

text \<open>
  Without a supplied order the code sorts \<^verbatim>\<open>df[column].unique()\<close>; comparing a missing
  cell with a string raises \<^verbatim>\<open>TypeError\<close>. A column of missing cells only is left
  \<open>Unspecified\<close>.
\<close>

definition ordinal_encode :: "dataset \<Rightarrow> string \<Rightarrow> string list \<Rightarrow> exn + dataset" where
  "ordinal_encode df column ordinal_values =
     (case map_of df column of
        None \<Rightarrow> Inl (KeyError column)
      | Some (NumCol xs) \<Rightarrow> Inl (Unspecified ''numeric column'')
      | Some (ObjCol xs) \<Rightarrow>
          if ordinal_values \<noteq> []
          then Inr (AList.update (column @ ''_ordinal'')
                     (NumCol (map_cells (enumerate_map (map Some ordinal_values)) xs)) df)
          else if None \<in> set xs
          then (if dropna xs = [] then Inl (Unspecified ''column of missing cells'')
                else Inl (TypeError ''not supported between instances of NoneType and str''))
          else Inr (AList.update (column @ ''_ordinal'')
                     (NumCol (map_cells (enumerate_map (map Some (sort (remdups (dropna xs))))) xs)) df))"

text \<open>
  The value of an indicator column in row \<open>i\<close>, and the sum of a row over a list of
  indicator columns.
\<close>

fun cell_at :: "real column \<Rightarrow> nat \<Rightarrow> real" where
  "cell_at (NumCol ys) i = (case ys ! i of None \<Rightarrow> 0 | Some v \<Rightarrow> v)"
| "cell_at (ObjCol ys) i = 0"

definition row_sum :: "dataset \<Rightarrow> nat \<Rightarrow> real" where
  "row_sum cols i = sum_list (map (\<lambda>nc. cell_at (snd nc) i) cols)"

fun binary_column :: "nat \<Rightarrow> real column \<Rightarrow> bool" where
  "binary_column n (NumCol ys) = (length ys = n \<and> set ys \<subseteq> {Some 0, Some 1})"
| "binary_column n (ObjCol ys) = False"

section \<open>Statistical tests (\<^verbatim>\<open>perform_test\<close>)\<close>

text \<open>
  A numeric cell seen by the tests: a finite number or one of the infinities that the
  code replaces by \<^verbatim>\<open>NaN\<close> before it drops the rows with a missing value.
\<close>

datatype xreal = Fin real | PosInf | NegInf


text \<open>
  What a callback hands back: either it returns its outputs or an exception leaves it.
\<close>

datatype 'a outcome = Returned 'a | Raised exn


text \<open>
  Python's truth value of a click count: \<^verbatim>\<open>None\<close> and 0 are false. A dropdown value
  is false when it is \<^verbatim>\<open>None\<close> or the empty string.
\<close>

fun truthy_nat :: "nat option \<Rightarrow> bool" where
  "truthy_nat None = False"
| "truthy_nat (Some n) = (n \<noteq> 0)"

text \<open>\<^verbatim>\<open>len(data)\<close>: the number of rows of the table.\<close>

fun nrows :: "(string \<times> 'n column) list \<Rightarrow> nat" where
  "nrows [] = 0"
| "nrows ((name, NumCol xs) # df) = length xs"
| "nrows ((name, ObjCol xs) # df) = length xs"

text \<open>\<^verbatim>\<open>str(n)\<close> of a natural number: its decimal digits.\<close>

fun str_nat :: "nat \<Rightarrow> string" where
  "str_nat n =
     (if n < 10 then [''0123456789'' ! n] else str_nat (n div 10) @ [''0123456789'' ! (n mod 10)])"

declare str_nat.simps [simp del]

text \<open>
  \<^verbatim>\<open>str(e)\<close>; for a \<^verbatim>\<open>KeyError\<close> it is the \<^verbatim>\<open>repr\<close> of the key: a string key
  between apostrophes, an integer key as its digits, a list of keys in brackets.
\<close>

fun repr_list :: "string list \<Rightarrow> string" where
  "repr_list [] = []"
| "repr_list [k] = [CHR 0x27] @ k @ [CHR 0x27]"
| "repr_list (k # ks) = [CHR 0x27] @ k @ [CHR 0x27] @ '', '' @ repr_list ks"

fun str_exn :: "exn \<Rightarrow> string" where
  "str_exn (KeyError k) = [CHR 0x27] @ k @ [CHR 0x27]"
| "str_exn (KeyErrorInt n) = str_nat n"
| "str_exn (KeyErrorList ks) = ''['' @ repr_list ks @ '']''"
| "str_exn (UnboundLocalError m) = m"
| "str_exn (ValueError m) = m"
| "str_exn (TypeError m) = m"
| "str_exn (AttributeError m) = m"
| "str_exn (Unspecified m) = m"








section \<open>Random-forest training (\<^verbatim>\<open>train_model\<close>)\<close>

text \<open>
  \<^verbatim>\<open>df.dropna(subset=[target] + features)\<close>: names that are no columns raise a
  \<^verbatim>\<open>KeyError\<close> that lists them.
\<close>

fun null_at :: "'n column \<Rightarrow> nat \<Rightarrow> bool" where
  "null_at (NumCol xs) i = (xs ! i = None)"
| "null_at (ObjCol xs) i = (xs ! i = None)"

fun take_rows :: "nat list \<Rightarrow> 'n column \<Rightarrow> 'n column" where
  "take_rows rows (NumCol xs) = NumCol (map (\<lambda>i. xs ! i) rows)"
| "take_rows rows (ObjCol xs) = ObjCol (map (\<lambda>i. xs ! i) rows)"

definition missing_names :: "(string \<times> 'n column) list \<Rightarrow> string list \<Rightarrow> string list" where
  "missing_names df cols = filter (\<lambda>c. map_of df c = None) cols"

definition complete_rows :: "(string \<times> 'n column) list \<Rightarrow> string list \<Rightarrow> nat list" where
  "complete_rows df cols =
     filter (\<lambda>i. \<forall>c\<in>set cols. case map_of df c of None \<Rightarrow> True | Some col \<Rightarrow> \<not> null_at col i)
       [0..<nrows df]"

definition dropna_subset ::
  "(string \<times> 'n column) list \<Rightarrow> string list \<Rightarrow> exn + (string \<times> 'n column) list" where
  "dropna_subset df cols =
     (if missing_names df cols \<noteq> [] then Inl (KeyErrorList (missing_names df cols))
      else Inr (map (\<lambda>(name, col). (name, take_rows (complete_rows df cols) col)) df))"

text \<open>
  What is kept of a feature for prediction time: mean and standard deviation of a
  numeric feature (1 in place of a deviation that is not positive), the categories of
  any other feature in order of first appearance.
\<close>

datatype feature_entry = NumericInfo real real | CategoricalInfo "string list"

text \<open>\<^verbatim>\<open>Series.unique()\<close>: the distinct values in order of first appearance.\<close>

definition unique :: "'a list \<Rightarrow> 'a list" where
  "unique xs = rev (remdups (rev xs))"

fun process_feature ::
  "float_stats \<Rightarrow> string \<Rightarrow> real column \<Rightarrow> feature_entry \<times> (string \<times> real list) list" where
  "process_feature stats feature (NumCol xs) =
     (let m = fmean stats (dropna xs);
          sd = (if fstd stats (dropna xs) > 0 then fstd stats (dropna xs) else 1)
      in (NumericInfo m sd, [(feature, map (\<lambda>v. fl (fl (v - m) / sd)) (dropna xs))]))"
| "process_feature stats feature (ObjCol xs) =
     (let unique_values = unique (dropna xs)
      in (CategoricalInfo unique_values,
          map (\<lambda>category. (feature @ ''_'' @ category,
                            map (\<lambda>v. if v = category then 1 else 0) (dropna xs)))
              unique_values))"

fun process_features ::
  "float_stats \<Rightarrow> dataset \<Rightarrow> string list \<Rightarrow> (string \<times> feature_entry) list
     \<Rightarrow> (string \<times> real list) list
     \<Rightarrow> exn + (string \<times> feature_entry) list \<times> (string \<times> real list) list" where
  "process_features stats df [] feature_info X_processed = Inr (feature_info, X_processed)"
| "process_features stats df (feature # rest) feature_info X_processed =
     (case map_of df feature of
        None \<Rightarrow> Inl (KeyError feature)
      | Some col \<Rightarrow>
          (let (entry, cols) = process_feature stats feature col
           in process_features stats df rest (AList.update feature entry feature_info)
                (fold (\<lambda>(name, vals). AList.update name vals) cols X_processed)))"

text \<open>
  A key of a Python dictionary is an integer or a string, and the two never compare
  equal: \<^verbatim>\<open>d[0]\<close> does not find the key \<^verbatim>\<open>"0"\<close>.
\<close>

datatype pykey = IntKey nat | StrKey string

text \<open>
  \<^verbatim>\<open>target_info\<close>: for a target that is not numeric and has at most 10 distinct
  values, the mapping from value to code and its inverse from code to value.
\<close>

datatype target_info = NumericTarget | CategoricalTarget "(string \<times> nat) list" "(pykey \<times> string) list"

fun make_target_info :: "real column \<Rightarrow> target_info" where
  "make_target_info (NumCol ys) = NumericTarget"
| "make_target_info (ObjCol ys) =
     (if length (unique (dropna ys)) \<le> 10
      then CategoricalTarget (zip (unique (dropna ys)) [0..<length (unique (dropna ys))])
             (zip (map IntKey [0..<length (unique (dropna ys))]) (unique (dropna ys)))
      else NumericTarget)"

text \<open>
  \<^verbatim>\<open>y_encoded\<close>: the codes of a categorical target (\<^verbatim>\<open>y.map(target_mapping)\<close>), the
  target itself otherwise.
\<close>

fun encode_target :: "real column \<Rightarrow> real column" where
  "encode_target (NumCol ys) = NumCol ys"
| "encode_target (ObjCol ys) =
     (if length (unique (dropna ys)) \<le> 10
      then NumCol (map (\<lambda>c. case c of None \<Rightarrow> None
                              | Some v \<Rightarrow> map_option real
                                  (map_of (zip (unique (dropna ys)) [0..<length (unique (dropna ys))]) v))
                       ys)
      else ObjCol ys)"

record model_info =
  target :: string
  features :: "string list"
  target_info :: target_info
  feature_importances :: "(string \<times> real) list"
  n_estimators :: nat
  max_depth :: "nat option"
  random_state :: "nat option"
  test_size :: real

record metrics =
  train_score :: real
  test_score :: real
  n_samples :: nat
  n_features :: nat

text \<open>
  The outputs of the callback: \<open>Silent\<close> for \<^verbatim>\<open>(None, None, None, "", True)\<close>,
  \<open>Status m\<close> for \<^verbatim>\<open>(None, None, None, m, True)\<close> with the red message \<open>m\<close>, and
  \<open>Trained\<close> for the stored model with its metrics.
\<close>

datatype train_result =
  Silent | Status string | Trained model_info "(string \<times> feature_entry) list" metrics

text \<open>
  Splitting, fitting and scoring the forest are scikit-learn's; they are the parameter
  \<open>fit_forest\<close>, which from the processed features, the target column and the four
  settings gives the train score, the test score and the feature importances, or
  raises.
\<close>

type_synonym forest =
  "(string \<times> real list) list \<Rightarrow> real column \<Rightarrow> nat \<Rightarrow> nat option \<Rightarrow> real \<Rightarrow> nat option
     \<Rightarrow> exn + real \<times> real \<times> real list"

definition train_model_body ::
  "float_stats \<Rightarrow> forest \<Rightarrow> dataset \<Rightarrow> string \<Rightarrow> string list \<Rightarrow> nat \<Rightarrow> nat option \<Rightarrow> real
     \<Rightarrow> nat option \<Rightarrow> exn + train_result" where
  "train_model_body stats fit_forest data target_name feature_names n_est depth tsize seed =
     (case dropna_subset data (target_name # feature_names) of
        Inl e \<Rightarrow> Inl e
      | Inr df \<Rightarrow>
          if nrows df < 10
          then Inr (Status ''Not enough data after removing missing values. Need at least 10 rows.'')
          else (case process_features stats df feature_names [] [] of
                  Inl e \<Rightarrow> Inl e
                | Inr (finfo, X_processed) \<Rightarrow>
                    (case map_of df target_name of
                       None \<Rightarrow> Inl (KeyError target_name)
                     | Some y \<Rightarrow>
                         (case fit_forest X_processed (encode_target y) n_est depth tsize seed of
                            Inl e \<Rightarrow> Inl e
                          | Inr (train, test, importances) \<Rightarrow>
                              Inr (Trained
                                     \<lparr>target = target_name, features = feature_names,
                                      target_info = make_target_info y,
                                      feature_importances = zip (map fst X_processed) importances,
                                      n_estimators = n_est, max_depth = depth,
                                      random_state = seed, test_size = tsize\<rparr>
                                     finfo
                                     \<lparr>train_score = train, test_score = test,
                                      n_samples = nrows df,
                                      n_features = length X_processed\<rparr>)))))"

text \<open>
  The callback: the first guard returns silently when the button was not clicked or
  when data, target or features are missing; every exception of the body is caught and
  shown as a message.
\<close>

definition train_model ::
  "float_stats \<Rightarrow> forest \<Rightarrow> nat option \<Rightarrow> dataset \<Rightarrow> string option \<Rightarrow> string list \<Rightarrow> nat
     \<Rightarrow> nat option \<Rightarrow> real \<Rightarrow> nat option \<Rightarrow> train_result outcome" where
  "train_model stats fit_forest n_clicks data target_name feature_names n_est depth tsize seed =
     (case target_name of
        None \<Rightarrow> Returned Silent
      | Some t \<Rightarrow>
          if \<not> truthy_nat n_clicks \<or> nrows data = 0 \<or> t = [] \<or> feature_names = []
          then Returned Silent
          else (case train_model_body stats fit_forest data t feature_names n_est depth tsize seed of
                  Inl e \<Rightarrow> Returned (Status (''Error training model: '' @ str_exn e))
                | Inr r \<Rightarrow> Returned r))"

text \<open>
  A stand-in for the library where a run is evaluated that never reaches it: a forest
  that cannot be fitted.
\<close>

definition unfitted_forest :: forest where
  "unfitted_forest X y n_est depth tsize seed = Inl (ValueError ''not fitted'')"

section \<open>Prediction from manual input (\<^verbatim>\<open>make_predictions\<close>)\<close>

text \<open>
  \<^verbatim>\<open>train_model\<close> writes \<^verbatim>\<open>model_info\<close> to the \<^verbatim>\<open>dcc.Store\<close> named
  \<^verbatim>\<open>trained-model-store\<close> and \<^verbatim>\<open>make_predictions\<close> reads it back as callback
  state. The store holds JSON, whose objects have string keys only: an integer key of
  a Python dictionary comes back as the string of its digits.
\<close>

fun json_key :: "pykey \<Rightarrow> pykey" where
  "json_key (IntKey n) = StrKey (str_nat n)"
| "json_key (StrKey s) = StrKey s"

fun store_target_info :: "target_info \<Rightarrow> target_info" where
  "store_target_info NumericTarget = NumericTarget"
| "store_target_info (CategoricalTarget mapping inverse_mapping) =
     CategoricalTarget mapping (map (\<lambda>(k, v). (json_key k, v)) inverse_mapping)"

definition dcc_store :: "model_info \<Rightarrow> model_info" where
  "dcc_store mi = mi\<lparr>target_info := store_target_info (target_info mi)\<rparr>"

text \<open>
  The value of a manual input field: nothing, a number (a number field) or a string (a
  dropdown).
\<close>

datatype input_value = NoValue | NumberValue real | TextValue string

text \<open>
  What the callback shows: an alert line, nothing, the predicted class or the predicted
  number, the last two with the values of the most important features.
\<close>

datatype prediction_result =
  Alert string | Nothing
  | PredictedClass string "(string \<times> real option) list"
  | PredictedNumber "real option" "(string \<times> real option) list"

text \<open>
  \<^verbatim>\<open>input_data[feature] = value\<close> for each pair of \<^verbatim>\<open>zip(manual_values, manual_ids)\<close>;
  the one-row frame made from it has the keys as columns.
\<close>

definition input_row :: "input_value list \<Rightarrow> string list \<Rightarrow> (string \<times> input_value) list" where
  "input_row manual_values manual_ids =
     fold (\<lambda>(value, feature). AList.update feature value) (zip manual_values manual_ids) []"

text \<open>
  One feature of the preprocessing loop. A numeric feature is standardised with the
  stored mean and deviation; an empty field becomes \<^verbatim>\<open>NaN\<close> (here \<open>None\<close>). A
  categorical feature gives one indicator per stored category. A feature without an
  entry in \<^verbatim>\<open>feature_info\<close> counts as numeric and the lookup of its mean raises. The
  interface builds a number field for a numeric feature and a dropdown for a
  categorical one; text in a number field or a number in a dropdown is left
  \<open>Unspecified\<close>.
\<close>

definition process_input ::
  "(string \<times> feature_entry) list \<Rightarrow> string \<Rightarrow> input_value
     \<Rightarrow> exn + (string \<times> real option) list" where
  "process_input feature_info feature value =
     (case map_of feature_info feature of
        None \<Rightarrow> Inl (KeyError feature)
      | Some (NumericInfo m sd) \<Rightarrow>
          (case value of
             NoValue \<Rightarrow> Inr [(feature, None)]
           | NumberValue v \<Rightarrow> Inr [(feature, Some ((v - m) / sd))]
           | TextValue s \<Rightarrow> Inl (Unspecified ''text in a number field''))
      | Some (CategoricalInfo categories) \<Rightarrow>
          (case value of
             NumberValue v \<Rightarrow> Inl (Unspecified ''number in a dropdown'')
           | NoValue \<Rightarrow>
               Inr (map (\<lambda>category. (feature @ ''_'' @ category,
                                       Some (if ''None'' = category then 1 else 0))) categories)
           | TextValue s \<Rightarrow>
               Inr (map (\<lambda>category. (feature @ ''_'' @ category,
                                       Some (if s = category then 1 else 0))) categories)))"

text \<open>
  The loop over \<^verbatim>\<open>features\<close>: \<open>Inr (Inl feature)\<close> is the early return with the alert
  for a feature that is not among the input columns, \<open>Inr (Inr X)\<close> the finished
  \<^verbatim>\<open>X_processed\<close>.
\<close>

fun preprocess ::
  "(string \<times> feature_entry) list \<Rightarrow> (string \<times> input_value) list \<Rightarrow> string list
     \<Rightarrow> (string \<times> real option) list \<Rightarrow> exn + (string + (string \<times> real option) list)" where
  "preprocess feature_info prediction_df [] X_processed = Inr (Inr X_processed)"
| "preprocess feature_info prediction_df (feature # rest) X_processed =
     (case map_of prediction_df feature of
        None \<Rightarrow> Inr (Inl feature)
      | Some value \<Rightarrow>
          (case process_input feature_info feature value of
             Inl e \<Rightarrow> Inl e
           | Inr cols \<Rightarrow>
               preprocess feature_info prediction_df rest
                 (fold (\<lambda>(name, v). AList.update name v) cols X_processed)))"

text \<open>
  \<^verbatim>\<open>sorted(importances.items(), key=lambda x: x[1], reverse=True)[:3]\<close>, and the
  values of those features that are columns of \<^verbatim>\<open>X_processed\<close>.
\<close>

definition top_features :: "(string \<times> real) list \<Rightarrow> (string \<times> real) list" where
  "top_features importances = take 3 (rev (sort_key snd (rev importances)))"

definition feature_values ::
  "(string \<times> real) list \<Rightarrow> (string \<times> real option) list \<Rightarrow> (string \<times> real option) list" where
  "feature_values importances X_processed =
     concat (map (\<lambda>(feature, importance).
                    case map_of X_processed feature of None \<Rightarrow> [] | Some v \<Rightarrow> [(feature, v)])
                 (top_features importances))"

text \<open>\<^verbatim>\<open>inverse_mapping[class_idx]\<close> with the integer \<^verbatim>\<open>class_idx = 0\<close>.\<close>

definition lookup_class :: "(pykey \<times> string) list \<Rightarrow> nat \<Rightarrow> exn + string" where
  "lookup_class inverse_mapping class_idx =
     (case map_of inverse_mapping (IntKey class_idx) of
        None \<Rightarrow> Inl (KeyErrorInt class_idx)
      | Some v \<Rightarrow> Inr v)"

text \<open>
  The weighted sum of the regression branch, over the importances whose feature is a
  column of \<^verbatim>\<open>X_processed\<close>; a \<^verbatim>\<open>NaN\<close> among the terms makes the sum \<^verbatim>\<open>NaN\<close>. When
  no importance has such a feature, Python's \<^verbatim>\<open>sum\<close> gives the integer 0 and reading
  its \<^verbatim>\<open>values\<close> raises \<^verbatim>\<open>AttributeError\<close>.
\<close>

fun weighted_sum :: "(string \<times> real) list \<Rightarrow> (string \<times> real option) list \<Rightarrow> real option" where
  "weighted_sum [] X_processed = Some 0"
| "weighted_sum ((feature, importance) # rest) X_processed =
     (case map_of X_processed feature of
        None \<Rightarrow> weighted_sum rest X_processed
      | Some None \<Rightarrow> None
      | Some (Some v) \<Rightarrow> map_option (\<lambda>s. v * importance + s) (weighted_sum rest X_processed))"

definition predicted_number ::
  "(string \<times> real) list \<Rightarrow> (string \<times> real option) list \<Rightarrow> exn + real option" where
  "predicted_number importances X_processed =
     (if list_all (\<lambda>(feature, importance). map_of X_processed feature = None) importances
      then Inl (AttributeError ([CHR 0x27] @ ''int'' @ [CHR 0x27] @ '' object has no attribute '' @
                                [CHR 0x27] @ ''values'' @ [CHR 0x27]))
      else Inr (weighted_sum importances X_processed))"

text \<open>The body of the \<^verbatim>\<open>try\<close> block on the path of the manual button.\<close>

definition manual_prediction_body ::
  "input_value list \<Rightarrow> string list \<Rightarrow> model_info \<Rightarrow> (string \<times> feature_entry) list
     \<Rightarrow> exn + prediction_result" where
  "manual_prediction_body manual_values manual_ids mi feature_info =
     (if manual_values = [] \<or> manual_ids = [] then Inr (Alert ''Please fill all input fields'')
      else case preprocess feature_info (input_row manual_values manual_ids) (features mi) [] of
        Inl e \<Rightarrow> Inl e
      | Inr (Inl feature) \<Rightarrow> Inr (Alert (''Missing feature: '' @ feature))
      | Inr (Inr X_processed) \<Rightarrow>
          (case target_info mi of
             CategoricalTarget mapping inverse_mapping \<Rightarrow>
               (case lookup_class inverse_mapping 0 of
                  Inl e \<Rightarrow> Inl e
                | Inr prediction \<Rightarrow>
                    Inr (PredictedClass prediction
                           (feature_values (feature_importances mi) X_processed)))
           | NumericTarget \<Rightarrow>
               (case predicted_number (feature_importances mi) X_processed of
                  Inl e \<Rightarrow> Inl e
                | Inr prediction \<Rightarrow>
                    Inr (PredictedNumber prediction
                           (feature_values (feature_importances mi) X_processed)))))"

text \<open>
  The callback on the manual button, with the stores as it receives them: without a
  stored model it asks for one, and every exception of the body becomes an alert.
\<close>

definition make_predictions_manual ::
  "input_value list \<Rightarrow> string list \<Rightarrow> model_info option \<Rightarrow> (string \<times> feature_entry) list
     \<Rightarrow> prediction_result outcome" where
  "make_predictions_manual manual_values manual_ids model_store feature_info =
     (case model_store of
        None \<Rightarrow> Returned (Alert ''Please train a model first'')
      | Some mi \<Rightarrow>
          if feature_info = [] then Returned (Alert ''Please train a model first'')
          else (case manual_prediction_body manual_values manual_ids mi feature_info of
                  Inl e \<Rightarrow> Returned (Alert (''Error making prediction: '' @ str_exn e))
                | Inr r \<Rightarrow> Returned r))"

section \<open>Type detection (\<^verbatim>\<open>detect_data_type\<close>)\<close>

















section \<open>Outlier detection: proofs\<close>



lemma set_dropna: "set (dropna xs) = {v. Some v \<in> set xs}"
  by (induction xs rule: dropna.induct) auto






lemma zscore_divisors_nonzero: "0 \<notin> set (snd (zscore_outlier_rows stats t col))"
  by (simp add: zscore_outlier_rows_def Let_def)

lemma record_rows_divisors: "record_rows col st = Inr st' \<Longrightarrow> divisors st' = divisors st"
  by (auto simp: record_rows_def split: option.splits if_splits)

lemma detect_column_divisors:
  assumes "detect_column stats m t df col st = Inr st'" "0 \<notin> set (divisors st)"
  shows "0 \<notin> set (divisors st')"
proof (cases "map_of df col")
  case None
  then show ?thesis using assms by (simp add: detect_column_def)
next
  case (Some c)
  show ?thesis
  proof (cases c)
    case (ObjCol ys)
    then show ?thesis using assms Some by (simp add: detect_column_def)
  next
    case (NumCol xs)
    obtain rows ds where z: "zscore_outlier_rows stats t xs = (rows, ds)"
      by (cases "zscore_outlier_rows stats t xs")
    have ds: "0 \<notin> set ds" using zscore_divisors_nonzero[of stats t xs] z by simp
    show ?thesis using assms Some NumCol z ds
      by (auto simp: detect_column_def dest!: record_rows_divisors split: if_splits)
  qed
qed

lemma detect_loop_divisors:
  "detect_loop stats m t df cols st = Inr st' \<Longrightarrow> 0 \<notin> set (divisors st) \<Longrightarrow>
   0 \<notin> set (divisors st')"
proof (induction cols arbitrary: st)
  case Nil
  then show ?case by simp
next
  case (Cons col cols)
  then show ?case
    by (auto split: sum.splits dest: detect_column_divisors)
qed







section \<open>Z-score detection: proofs\<close>

lemma normalise_up:
  "0 < y \<Longrightarrow> 2 ^ 52 \<le> y * 2 ^ j \<Longrightarrow> y * 2 ^ j < 2 ^ 53 \<Longrightarrow> j \<le> k \<Longrightarrow>
   normalise k y e = (y * 2 ^ j, e - int j)"
proof (induction j arbitrary: k y e)
  case 0
  then show ?case by (cases k) auto
next
  case (Suc j)
  obtain k' where k: "k = Suc k'" using Suc.prems(4) by (cases k) auto
  have lt: "y < 2 ^ 52"
  proof -
    have "y * 2 ^ j * 2 < 2 ^ 52 * 2" using Suc.prems(3) by (simp add: mult.assoc)
    then have "y * 2 ^ j < 2 ^ 52" by simp
    moreover have "y \<le> y * 2 ^ j" using Suc.prems(1) by simp
    ultimately show ?thesis by simp
  qed
  have "normalise k' (y * 2) (e - 1) = (y * 2 * 2 ^ j, e - 1 - int j)"
    using Suc.prems k by (intro Suc.IH) (simp_all add: mult.assoc)
  then show ?case using k lt by (simp add: mult.assoc)
qed

lemma fl_value:
  assumes "x \<noteq> 0" and "2 ^ 52 \<le> \<bar>x\<bar> * 2 ^ j" and "\<bar>x\<bar> * 2 ^ j < 2 ^ 53" and "j \<le> 2200"
    and "sgn x * of_int (round_half_even (\<bar>x\<bar> * 2 ^ j)) / 2 ^ j = r"
  shows "fl x = r"
proof -
  have "normalise 2200 \<bar>x\<bar> 0 = (\<bar>x\<bar> * 2 ^ j, 0 - int j)"
    using assms(1-4) by (intro normalise_up) simp_all
  moreover have "pow2 (- int j) = 1 / 2 ^ j" by (simp add: pow2_def)
  ultimately show ?thesis using assms(1,5) by (simp add: fl_def)
qed

lemma fl_0: "fl 0 = 0" by (simp add: fl_def)

lemma t1: "fl (0 + tenth) = tenth"
  by (rule fl_value[where j = 56]) (simp_all add: tenth_def round_half_even_def Let_def)

lemma t2: "fl (tenth + tenth) = 2 * tenth"
  by (rule fl_value[where j = 55]) (simp_all add: tenth_def round_half_even_def Let_def)

lemma t3: "fl (2 * tenth + tenth) = 5404319552844596 / 2 ^ 54"
  by (rule fl_value[where j = 54]) (simp_all add: tenth_def round_half_even_def Let_def)

lemma t4: "fl (5404319552844596 / 2 ^ 54 / 3) = 7205759403792795 / 2 ^ 56"
  by (rule fl_value[where j = 56]) (simp_all add: round_half_even_def Let_def)


lemma sum_tenth: "float_sum [tenth, tenth, tenth] = 5404319552844596 / 2 ^ 54"
  by (simp only: float_sum_def foldl_Cons foldl_Nil t1 t2 t3)

lemma mean_tenth: "nanmean [tenth, tenth, tenth] = 7205759403792795 / 2 ^ 56"
proof -
  have "real (length [tenth, tenth, tenth]) = 3" by simp
  then show ?thesis by (simp only: nanmean_def sum_tenth t4)
qed

lemma t5: "fl (7205759403792795 / 2 ^ 56 - tenth) = 1 / 2 ^ 56"
  by (rule fl_value[where j = 108]) (simp_all add: tenth_def round_half_even_def Let_def)

lemma t6: "fl (1 / 2 ^ 56 * (1 / 2 ^ 56)) = 1 / 2 ^ 112"
  by (rule fl_value[where j = 164]) (simp_all add: round_half_even_def Let_def)

lemma t7: "fl (0 + 1 / 2 ^ 112) = 1 / 2 ^ 112"
  by (rule fl_value[where j = 164]) (simp_all add: round_half_even_def Let_def)

lemma t8: "fl (1 / 2 ^ 112 + 1 / 2 ^ 112) = 1 / 2 ^ 111"
  by (rule fl_value[where j = 163]) (simp_all add: round_half_even_def Let_def)

lemma t9: "fl (1 / 2 ^ 111 + 1 / 2 ^ 112) = 3 / 2 ^ 112"
  by (rule fl_value[where j = 163]) (simp_all add: round_half_even_def Let_def)

lemma t10: "fl (3 / 2 ^ 112 / 2) = 3 / 2 ^ 113"
  by (rule fl_value[where j = 164]) (simp_all add: round_half_even_def Let_def)

lemma sqrt_scaled: "sqrt (3 / 2 ^ 113) * 2 ^ 108 = sqrt (3 * 2 ^ 103)"
proof -
  have e: "(3 * 2 ^ 103 :: real) = 3 / 2 ^ 113 * (2 ^ 108)\<^sup>2" by simp
  have "sqrt (3 * 2 ^ 103) = sqrt (3 / 2 ^ 113) * sqrt ((2 ^ 108)\<^sup>2)"
    by (simp only: e real_sqrt_mult)
  also have "sqrt ((2 ^ 108)\<^sup>2) = (2 ^ 108 :: real)"
    by (simp only: real_sqrt_abs) simp
  finally show ?thesis by simp
qed

lemma sqrt_bounds:
  "5515760546423086 \<le> sqrt (3 * 2 ^ 103)" "sqrt (3 * 2 ^ 103) < 5515760546423086 + 1 / 2"
proof -
  show "5515760546423086 \<le> sqrt (3 * 2 ^ 103)"
    by (rule real_le_rsqrt) simp
  show "sqrt (3 * 2 ^ 103) < 5515760546423086 + 1 / 2"
    by (rule real_less_lsqrt) (simp_all add: power2_eq_square)
qed

lemma round_half_even_below_half:
  assumes "of_int n \<le> y" and "y < of_int n + 1 / 2"
  shows "round_half_even y = n"
proof -
  have f: "\<lfloor>y\<rfloor> = n" using assms by (intro floor_unique) simp_all
  show ?thesis using assms(2) by (simp add: round_half_even_def Let_def f)
qed

lemma round_sqrt: "round_half_even (sqrt (3 * 2 ^ 103)) = 5515760546423086"
  using sqrt_bounds by (intro round_half_even_below_half) simp_all

lemma t11: "fl (sqrt (3 / 2 ^ 113)) = 5515760546423086 / 2 ^ 108"
proof (rule fl_value[where j = 108])
  have pos: "0 < sqrt (3 / 2 ^ 113)" by simp
  show "sqrt (3 / 2 ^ 113) \<noteq> 0" using pos by simp
  have a: "\<bar>sqrt (3 / 2 ^ 113)\<bar> * 2 ^ 108 = sqrt (3 * 2 ^ 103)"
    using pos sqrt_scaled by simp
  show "2 ^ 52 \<le> \<bar>sqrt (3 / 2 ^ 113)\<bar> * 2 ^ 108"
    unfolding a using sqrt_bounds(1) by simp
  show "\<bar>sqrt (3 / 2 ^ 113)\<bar> * 2 ^ 108 < 2 ^ 53"
    unfolding a using sqrt_bounds(2) by simp
  show "(108::nat) \<le> 2200" by simp
  show "sgn (sqrt (3 / 2 ^ 113)) * real_of_int (round_half_even (\<bar>sqrt (3 / 2 ^ 113)\<bar> * 2 ^ 108)) / 2 ^ 108 =
        5515760546423086 / 2 ^ 108"
    unfolding a round_sqrt using pos by simp
qed

lemma std_tenth: "nanstd [tenth, tenth, tenth] = 5515760546423086 / 2 ^ 108"
proof -
  have l: "real (length [tenth, tenth, tenth] - 1) = 2" by simp
  show ?thesis
    by (simp only: nanstd_def mean_tenth list.map t5 t6 float_sum_def foldl_Cons foldl_Nil t7 t8 t9 l t10 t11)
qed

lemma t12: "fl (tenth - 7205759403792795 / 2 ^ 56) = - (1 / 2 ^ 56)"
  by (rule fl_value[where j = 108]) (simp_all add: tenth_def round_half_even_def Let_def)

lemma t13: "fl (- (1 / 2 ^ 56) / (5515760546423086 / 2 ^ 108)) = - (7354347395230783 / 2 ^ 53)"
  by (rule fl_value[where j = 53]) (simp_all add: round_half_even_def Let_def)

lemma zscore_tenth:
  "zscore_outlier_rows binary64 (Some (1 / 2)) [Some tenth, Some tenth, Some tenth] =
     ([0, 1, 2], [5515760546423086 / 2 ^ 108])"
proof -
  have d: "dropna [Some tenth, Some tenth, Some tenth] = [tenth, tenth, tenth]" by simp
  have m: "fmean binary64 [tenth, tenth, tenth] = 7205759403792795 / 2 ^ 56"
    by (simp add: binary64_def mean_tenth)
  have s: "fstd binary64 [tenth, tenth, tenth] = 5515760546423086 / 2 ^ 108"
    by (simp add: binary64_def std_tenth)
  have z: "\<bar>fl (fl (tenth - 7205759403792795 / 2 ^ 56) / (5515760546423086 / 2 ^ 108))\<bar> > 1 / 2"
    by (simp only: t12 t13) simp
  have nz: "(5515760546423086 / 2 ^ 108 :: real) \<noteq> 0" by simp
  have t: "threshold_or 3 (Some (1 / 2)) = 1 / 2" by (simp add: threshold_or_def)
  have r: "rows_where (\<lambda>v. \<bar>fl (fl (v - 7205759403792795 / 2 ^ 56) / (5515760546423086 / 2 ^ 108))\<bar> > 1 / 2)
             [Some tenth, Some tenth, Some tenth] = [0, 1, 2]"
    using z by (simp add: rows_where_def upt_rec)
  show ?thesis
    unfolding zscore_outlier_rows_def Let_def d m s t using nz r by simp
qed

lemma float_sum_zeros: "\<forall>x\<in>set xs. x = 0 \<Longrightarrow> foldl (\<lambda>a x. fl (a + x)) 0 xs = 0"
  by (induction xs) (simp_all add: fl_0)

lemma nanstd_at_mean:
  assumes "\<forall>v\<in>set ys. v = c" and "nanmean ys = c"
  shows "nanstd ys = 0"
proof -
  have "\<forall>x\<in>set (map (\<lambda>x. fl (fl (nanmean ys - x) * fl (nanmean ys - x))) ys). x = 0"
    using assms by (simp add: fl_0)
  then have "float_sum (map (\<lambda>x. fl (fl (nanmean ys - x) * fl (nanmean ys - x))) ys) = 0"
    unfolding float_sum_def by (rule float_sum_zeros)
  then show ?thesis by (simp add: nanstd_def fl_0)
qed

lemma s1: "fl (0 + 7) = 7"
  by (rule fl_value[where j = 50]) (simp_all add: round_half_even_def Let_def)

lemma s2: "fl (7 + 7) = 14"
  by (rule fl_value[where j = 49]) (simp_all add: round_half_even_def Let_def)

lemma s3: "fl (14 + 7) = 21"
  by (rule fl_value[where j = 48]) (simp_all add: round_half_even_def Let_def)

lemma s4: "fl (21 / 3) = 7"
  by (rule fl_value[where j = 50]) (simp_all add: round_half_even_def Let_def)

lemma mean_sevens: "nanmean [7, 7, 7] = 7"
proof -
  have "real (length [7, 7, 7 :: real]) = 3" by simp
  then show ?thesis by (simp only: nanmean_def float_sum_def foldl_Cons foldl_Nil s1 s2 s3 s4)
qed

lemma std_sevens: "nanstd [7, 7, 7] = 0"
  by (rule nanstd_at_mean[where c = 7]) (simp_all add: mean_sevens)

lemma zscore_zero_std:
  "fstd stats (dropna xs) = 0 \<Longrightarrow> zscore_outlier_rows stats outlier_threshold xs = ([], [])"
  by (simp add: zscore_outlier_rows_def Let_def)

text \<open>
  Claim C4, as the code has it. The guard of the Z-score branch compares the computed
  standard deviation with 0. For a numeric column whose computed standard deviation is
  0, Z-score detection flags no row of that column, whatever the threshold, and performs
  no division; in any run of the detection, whatever the mean and the standard deviation
  are computed to be, no division has the divisor 0. In binary64, a column whose
  non-null values are all equal has the computed standard deviation 0 when its computed
  mean is that value.
\<close>

theorem zscore_zero_std_flags_nothing:
  assumes "map_of df col = Some (NumCol xs)"
    and "fstd stats (dropna xs) = 0"
  shows "(\<exists>st. detect_outliers stats ''zscore'' outlier_threshold df [col] = Inr st \<and>
            outlier_indices st = {} \<and> outliers_dict st = [] \<and> divisors st = []) \<and>
         (\<forall>ys c. (\<forall>v\<in>set ys. v = c) \<and> fmean binary64 ys = c \<longrightarrow> fstd binary64 ys = 0) \<and>
         (\<forall>s m t d cols st. detect_outliers s m t d cols = Inr st \<longrightarrow> 0 \<notin> set (divisors st))"
proof -
  have z: "zscore_outlier_rows stats outlier_threshold xs = ([], [])"
    using assms(2) by (rule zscore_zero_std)
  have a: "\<exists>st. detect_outliers stats ''zscore'' outlier_threshold df [col] = Inr st \<and>
            outlier_indices st = {} \<and> outliers_dict st = [] \<and> divisors st = []"
    using assms(1) z
    by (auto simp: detect_outliers_def detect_column_def record_rows_def detect_init_def)
  have b: "\<forall>ys c. (\<forall>v\<in>set ys. v = c) \<and> fmean binary64 ys = c \<longrightarrow> fstd binary64 ys = 0"
    using nanstd_at_mean by (simp add: binary64_def)
  have c: "0 \<notin> set (divisors st)" if "detect_outliers s m t d cols = Inr st" for s m t d cols st
    using that detect_loop_divisors[of s m t d cols detect_init st]
    by (simp add: detect_outliers_def detect_init_def)
  from a b c show ?thesis by blast
qed

theorem zscore_zero_std_flags_nothing_witness:
  "map_of [(''x'', NumCol [Some (7::real), Some 7, None, Some 7])] ''x'' =
     Some (NumCol [Some 7, Some 7, None, Some 7]) \<and>
   dropna [Some (7::real), Some 7, None, Some 7] = [7, 7, 7] \<and>
   fmean binary64 [7, 7, 7] = 7 \<and>
   fstd binary64 [7, 7, 7] = 0 \<and>
   (\<exists>st. detect_outliers binary64 ''zscore'' (Some (1 / 2))
           [(''x'', NumCol [Some 7, Some 7, None, Some 7])] [''x''] = Inr st \<and>
         outlier_indices st = {} \<and> divisors st = [])"
proof -
  have h1: "map_of [(''x'', NumCol [Some (7::real), Some 7, None, Some 7])] ''x'' =
     Some (NumCol [Some 7, Some 7, None, Some 7])" by simp
  have m: "fmean binary64 [7, 7, 7] = 7" by (simp add: binary64_def mean_sevens)
  have s: "fstd binary64 [7, 7, 7] = 0" by (simp add: binary64_def std_sevens)
  have h2: "fstd binary64 (dropna [Some (7::real), Some 7, None, Some 7]) = 0" using s by simp
  show ?thesis
    using zscore_zero_std_flags_nothing[OF h1 h2, of "Some (1 / 2)"] m s by auto
qed

text \<open>
  The claim as it was stated fails in binary64. Three cells holding 0.1 are all equal,
  yet their sum rounds to 0.30000000000000004 and their mean to 0.10000000000000002, so
  the computed standard deviation is \<open>5515760546423086 / 2 ^ 108\<close> (about 1.7e-17), not
  0: the guard is not taken, the division is performed, every Z-score is about 0.816,
  and with the threshold 0.5 all three rows are flagged.
\<close>

theorem zscore_equal_tenths_counterexample:
  "detect_outliers binary64 ''zscore'' (Some (1 / 2))
      [(''x'', NumCol [Some tenth, Some tenth, Some tenth])] [''x''] =
     Inr \<lparr>outlier_rows = Some [0, 1, 2], outliers_dict = [(''x'', [0, 1, 2])],
          outlier_indices = {0, 1, 2}, divisors = [5515760546423086 / 2 ^ 108]\<rparr> \<and>
   fstd binary64 [tenth, tenth, tenth] = 5515760546423086 / 2 ^ 108"
proof -
  have a: "detect_outliers binary64 ''zscore'' (Some (1 / 2))
      [(''x'', NumCol [Some tenth, Some tenth, Some tenth])] [''x''] =
     Inr \<lparr>outlier_rows = Some [0, 1, 2], outliers_dict = [(''x'', [0, 1, 2])],
          outlier_indices = {0, 1, 2}, divisors = [5515760546423086 / 2 ^ 108]\<rparr>"
    by (simp add: detect_outliers_def detect_column_def record_rows_def detect_init_def
        zscore_tenth)
  have b: "fstd binary64 [tenth, tenth, tenth] = 5515760546423086 / 2 ^ 108"
    by (simp add: binary64_def std_tenth)
  from a b show ?thesis by (rule conjI)
qed

section \<open>Imputation: proofs\<close>

lemma fillna_length: "length (fillna v col) = length col"
  by (simp add: fillna_def)

lemma fillna_keeps_present: "i < length col \<Longrightarrow> col ! i \<noteq> None \<Longrightarrow> fillna v col ! i = col ! i"
  by (auto simp: fillna_def)

lemma fillna_no_missing: "fillna (Some v) col = map (\<lambda>c. Some (case c of None \<Rightarrow> v | Some x \<Rightarrow> x)) col"
  by (auto simp: fillna_def split: option.splits)

lemma fillna_None: "fillna None col = col"
  by (auto simp: fillna_def map_idI split: option.splits)

text \<open>
  The paths that use \<^verbatim>\<open>fillna\<close> (mean, median, mode) keep every present cell of a
  numeric or an object column.
\<close>

lemma impute_column_keeps_present_num:
  assumes "impute_column method (NumCol xs) = Inr (Some c')" and "method \<noteq> ''knn''"
  shows "\<exists>ys. c' = NumCol ys \<and> length ys = length xs \<and>
           (\<forall>i<length xs. xs ! i \<noteq> None \<longrightarrow> ys ! i = xs ! i)"
  using assms by (auto simp: fillna_length fillna_keeps_present split: if_splits)

lemma impute_column_keeps_present_obj:
  assumes "impute_column method (ObjCol xs) = Inr (Some c')"
  shows "\<exists>ys. c' = ObjCol ys \<and> length ys = length xs \<and>
           (\<forall>i<length xs. xs ! i \<noteq> None \<longrightarrow> ys ! i = xs ! i)"
  using assms by (auto simp: fillna_length fillna_keeps_present split: if_splits)

text \<open>Mean imputation run again on its own result assigns nothing new.\<close>

lemma impute_column_mean_twice:
  assumes "impute_column ''mean'' (NumCol xs) = Inr (Some c')"
  shows "impute_column ''mean'' c' = Inr None \<or> impute_column ''mean'' c' = Inr (Some c')"
proof (cases "dropna xs = []")
  case True
  then have "c' = NumCol xs" using assms by (auto simp: series_mean_def fillna_None split: if_splits)
  then show ?thesis using assms by simp
next
  case False
  then obtain v where "c' = NumCol (fillna (Some v) xs)"
    using assms by (auto simp: series_mean_def split: if_splits)
  then show ?thesis by (auto simp: fillna_no_missing)
qed

text \<open>
  Claim C2 fails on the KNN path. The column \<open>[1.23456, missing, 2]\<close> imputed with
  \<open>knn\<close> comes back as \<open>[1.235, 1.617, 2]\<close>: the whole series returned by the imputer
  is rounded to three decimals, so the present cell 1.23456 is overwritten with 1.235.
\<close>

theorem knn_imputation_rounds_present_cells:
  "apply_imputation ''knn'' [(''x'', NumCol [Some 1.23456, None, Some 2])] [''x''] =
     Inr [(''x'', NumCol [Some 1.235, Some 1.617, Some 2])]"
  by (simp add: apply_imputation_def knn_fit_transform_def mean_def round3_def
      round_half_even_def Let_def)

text \<open>
  Claim C5 fails on numeric columns. Mode imputation of the numeric column
  \<open>[1, 1, missing]\<close> leaves it as it was: the \<open>mode\<close> method is only consulted in the
  branch for columns that are not numeric.
\<close>

theorem mode_imputation_skips_numeric_column:
  "apply_imputation ''mode'' [(''x'', NumCol [Some 1, Some 1, None])] [''x''] =
     Inr [(''x'', NumCol [Some 1, Some 1, None])]"
  by (simp add: apply_imputation_def)

text \<open>On an object column the same call fills the gap with the most frequent value.\<close>

lemma mode_imputation_object_example:
  "apply_imputation ''mode'' [(''x'', ObjCol [Some ''b'', Some ''a'', None, Some ''b''])] [''x''] =
     Inr [(''x'', ObjCol [Some ''b'', Some ''a'', Some ''b'', Some ''b''])]"
  by (simp add: apply_imputation_def series_mode_def fillna_def Let_def)

section \<open>Encoding: proofs\<close>

lemma sum_indicator:
  "distinct vs \<Longrightarrow> w \<in> set vs \<Longrightarrow> (\<Sum>v\<leftarrow>vs. if w = v then 1 else 0) = (1::real)"
proof (induction vs)
  case Nil then show ?case by simp
next
  case (Cons a vs)
  have z: "(\<Sum>v\<leftarrow>vs. if w = v then 1 else 0) = (0::real)" if "w \<notin> set vs"
    using that by (induction vs) auto
  show ?case using Cons z by auto
qed

lemma row_sum_dummies:
  assumes "i < length xs" "xs ! i = Some w"
  shows "row_sum (get_dummies column xs) i = 1"
proof -
  have w: "w \<in> set (sort (remdups (dropna xs)))"
    using assms nth_mem[of i xs] by (auto simp: set_dropna)
  have d: "distinct (sort (remdups (dropna xs)))" by simp
  have "row_sum (get_dummies column xs) i = (\<Sum>v\<leftarrow>sort (remdups (dropna xs)). if w = v then 1 else 0)"
    using assms by (simp add: row_sum_def get_dummies_def comp_def)
  then show ?thesis using sum_indicator[OF d w] by simp
qed

lemma binary_dummies: "nc \<in> set (get_dummies column xs) \<Longrightarrow> binary_column (length xs) (snd nc)"
  by (auto simp: get_dummies_def split: if_splits)

lemma names_dummies:
  "map fst (get_dummies column xs) = map (\<lambda>v. column @ ''_'' @ v) (sort (remdups (dropna xs)))"
  by (simp add: get_dummies_def comp_def)

lemma update_fresh: "map_of al k = None \<Longrightarrow> AList.update k v al = al @ [(k, v)]"
  by (induction al) (auto split: if_splits)

lemma fold_update_fresh:
  "distinct (map fst xs) \<Longrightarrow> (\<forall>k\<in>set (map fst xs). map_of acc k = None) \<Longrightarrow>
   fold (\<lambda>(name, col). AList.update name col) xs acc = acc @ xs"
proof (induction xs arbitrary: acc)
  case Nil
  then show ?case by simp
next
  case (Cons x xs)
  obtain k v where x: "x = (k, v)" by (cases x)
  have f: "map_of acc k = None" using Cons.prems(2) x by simp
  have d: "distinct (map fst xs)" and nk: "k \<notin> set (map fst xs)" using Cons.prems(1) x by auto
  have "\<forall>k'\<in>set (map fst xs). map_of (acc @ [(k, v)]) k' = None"
    using Cons.prems(2) nk by (auto simp: map_add_def split: option.splits)
  then have "fold (\<lambda>(name, col). AList.update name col) xs (acc @ [(k, v)]) = (acc @ [(k, v)]) @ xs"
    using Cons.IH[OF d] by blast
  then show ?case using x f by (simp add: update_fresh)
qed

lemma to_dict_records_distinct: "distinct (map fst cols) \<Longrightarrow> to_dict_records cols = cols"
  using fold_update_fresh[of cols "[]"] by (simp add: to_dict_records_def)

lemma dummies_nth:
  assumes "k < length (sort (remdups (dropna xs)))"
  shows "get_dummies column xs ! k =
           (column @ ''_'' @ sort (remdups (dropna xs)) ! k,
            NumCol (map (\<lambda>c. Some (if c = Some (sort (remdups (dropna xs)) ! k) then 1 else 0)) xs))"
  using assms by (simp add: get_dummies_def)

lemma dummies_names_distinct: "distinct (map fst (get_dummies column xs))"
proof -
  have "inj_on (\<lambda>v. column @ ''_'' @ v) (set (sort (remdups (dropna xs))))"
    by (auto simp: inj_on_def)
  then show ?thesis by (simp add: names_dummies distinct_map)
qed

text \<open>
  Claim C3, as the code has it. Let no column of the table bear the name of a new
  indicator. Then one-hot encoding of an object column returns the table followed by
  new columns, one for each distinct non-null value of the source column and named
  after it (column, underscore, value); every column of the table, the source column
  among them, is returned as it was. The column of a value holds 1 in the rows whose
  source cell is that value and 0 in all other rows, and in every row whose source
  value is not null the new columns sum to 1.
\<close>

theorem onehot_appends_indicator_columns:
  assumes "map_of df column = Some (ObjCol xs)"
    and "distinct (map fst df)"
    and "\<forall>v. Some v \<in> set xs \<longrightarrow> map_of df (column @ ''_'' @ v) = None"
  shows "\<exists>vs dummies. onehot_encode df column = Inr (df @ dummies) \<and>
           distinct vs \<and> set vs = {v. Some v \<in> set xs} \<and> length dummies = length vs \<and>
           (\<forall>k<length vs.
              fst (dummies ! k) = column @ ''_'' @ vs ! k \<and>
              binary_column (length xs) (snd (dummies ! k)) \<and>
              (\<forall>i<length xs.
                 cell_at (snd (dummies ! k)) i = (if xs ! i = Some (vs ! k) then 1 else 0))) \<and>
           (\<forall>i<length xs. xs ! i \<noteq> None \<longrightarrow> row_sum dummies i = 1)"
proof -
  let ?vs = "sort (remdups (dropna xs))"
  let ?d = "get_dummies column xs"
  have c: "set ?vs = {v. Some v \<in> set xs}" by (simp add: set_dropna)
  have fresh: "n \<notin> set (map fst df)" if "n \<in> set (map fst ?d)" for n
  proof -
    have "n \<in> set (map (\<lambda>v. column @ ''_'' @ v) ?vs)"
      using that by (simp only: names_dummies)
    then obtain v where v: "Some v \<in> set xs" "n = column @ ''_'' @ v"
      by (auto simp: set_dropna)
    have "map_of df n = None" using assms(3) v by simp
    then show ?thesis by (simp add: map_of_eq_None_iff)
  qed
  have "distinct (map fst (df @ ?d))"
    using assms(2) dummies_names_distinct[of column xs] fresh by auto
  then have a: "onehot_encode df column = Inr (df @ ?d)"
    using assms(1) by (simp add: onehot_encode_def to_dict_records_distinct)
  have b: "distinct ?vs" by simp
  have l: "length ?d = length ?vs" by (simp add: get_dummies_def)
  have e: "fst (?d ! k) = column @ ''_'' @ ?vs ! k \<and>
           binary_column (length xs) (snd (?d ! k)) \<and>
           (\<forall>i<length xs. cell_at (snd (?d ! k)) i = (if xs ! i = Some (?vs ! k) then 1 else 0))"
    if "k < length ?vs" for k
    using dummies_nth[OF that, of column] by (auto split: if_splits)
  have f: "\<forall>i<length xs. xs ! i \<noteq> None \<longrightarrow> row_sum ?d i = 1"
    using row_sum_dummies by auto
  show ?thesis
  proof (intro exI conjI)
    show "onehot_encode df column = Inr (df @ ?d)" by (rule a)
    show "distinct ?vs" by (rule b)
    show "set ?vs = {v. Some v \<in> set xs}" by (rule c)
    show "length ?d = length ?vs" by (rule l)
    show "\<forall>k<length ?vs.
              fst (?d ! k) = column @ ''_'' @ ?vs ! k \<and>
              binary_column (length xs) (snd (?d ! k)) \<and>
              (\<forall>i<length xs.
                 cell_at (snd (?d ! k)) i = (if xs ! i = Some (?vs ! k) then 1 else 0))"
      using e by blast
    show "\<forall>i<length xs. xs ! i \<noteq> None \<longrightarrow> row_sum ?d i = 1" by (rule f)
  qed
qed

theorem onehot_appends_indicator_columns_witness:
  "map_of [(''c'', ObjCol [Some ''b'', None, Some ''a'', Some ''b'']),
           (''n'', NumCol [Some (1::real), Some 2, None, Some 4])]
     ''c'' = Some (ObjCol [Some ''b'', None, Some ''a'', Some ''b'']) \<and>
   distinct (map fst [(''c'', ObjCol [Some ''b'', None, Some ''a'', Some ''b'']),
                      (''n'', NumCol [Some (1::real), Some 2, None, Some 4])]) \<and>
   (\<exists>(vs::string list) dummies.
      onehot_encode [(''c'', ObjCol [Some ''b'', None, Some ''a'', Some ''b'']),
                     (''n'', NumCol [Some 1, Some 2, None, Some 4])] ''c'' =
        Inr ([(''c'', ObjCol [Some ''b'', None, Some ''a'', Some ''b'']),
              (''n'', NumCol [Some 1, Some 2, None, Some 4])] @ dummies) \<and>
      distinct vs \<and> length dummies = length vs \<and>
      row_sum dummies 0 = 1 \<and> row_sum dummies 3 = 1)"
proof -
  let ?xs = "[Some ''b'', None, Some ''a'', Some ''b'']"
  let ?df = "[(''c'', ObjCol ?xs), (''n'', NumCol [Some (1::real), Some 2, None, Some 4])]"
  have h1: "map_of ?df ''c'' = Some (ObjCol ?xs)" by simp
  have h2: "distinct (map fst ?df)" by simp
  have h3: "\<forall>v. Some v \<in> set ?xs \<longrightarrow> map_of ?df (''c'' @ ''_'' @ v) = None" by auto
  obtain vs dummies where r:
    "onehot_encode ?df ''c'' = Inr (?df @ dummies) \<and>
     distinct vs \<and> set vs = {v. Some v \<in> set ?xs} \<and> length dummies = length vs \<and>
     (\<forall>k<length vs.
        fst (dummies ! k) = ''c'' @ ''_'' @ vs ! k \<and>
        binary_column (length ?xs) (snd (dummies ! k)) \<and>
        (\<forall>i<length ?xs.
           cell_at (snd (dummies ! k)) i = (if ?xs ! i = Some (vs ! k) then 1 else 0))) \<and>
     (\<forall>i<length ?xs. ?xs ! i \<noteq> None \<longrightarrow> row_sum dummies i = 1)"
    using onehot_appends_indicator_columns[OF h1 h2 h3] by (elim exE) (rule that)
  have a: "onehot_encode ?df ''c'' = Inr (?df @ dummies)" using r by (elim conjE)
  have b: "distinct vs" using r by (elim conjE)
  have l: "length dummies = length vs" using r by (elim conjE)
  have f: "\<forall>i<length ?xs. ?xs ! i \<noteq> None \<longrightarrow> row_sum dummies i = 1" using r by (elim conjE)
  have s0: "row_sum dummies 0 = 1" using f[rule_format, of 0] by simp
  have s3: "row_sum dummies 3 = 1" using f[rule_format, of 3] by simp
  from a b l s0 s3 have "\<exists>(vs::string list) dummies. onehot_encode ?df ''c'' = Inr (?df @ dummies) \<and>
      distinct vs \<and> length dummies = length vs \<and>
      row_sum dummies 0 = 1 \<and> row_sum dummies 3 = 1"
    by blast
  with h1 h2 show ?thesis by (intro conjI)
qed

text \<open>
  The claim as it was stated fails when a column of the table bears the name of an
  indicator. The table with the columns \<open>c = [x, y]\<close> and \<open>c_x = [5, 6]\<close> comes back with
  \<open>c_x = [1, 0]\<close>: the indicator of the value x has taken the place of the column that
  was there, and only \<open>c_y\<close> is appended.
\<close>

theorem onehot_name_collision_counterexample:
  "onehot_encode [(''c'', ObjCol [Some ''x'', Some ''y'']), (''c_x'', NumCol [Some 5, Some 6])] ''c'' =
     Inr [(''c'', ObjCol [Some ''x'', Some ''y'']), (''c_x'', NumCol [Some 1, Some 0]),
          (''c_y'', NumCol [Some 0, Some 1])]"
  by (simp add: onehot_encode_def get_dummies_def to_dict_records_def)

text \<open>
  Claim C6 fails. With the order \<open>low, mid\<close> supplied for a column that also holds
  \<open>high\<close>, the ordinal branch neither rejects the order nor completes it: it returns the
  table with the new column \<open>[0, 1, missing]\<close>, the omitted value left unmapped.
\<close>

theorem ordinal_partial_order_leaves_value_unmapped:
  "ordinal_encode [(''size'', ObjCol [Some ''low'', Some ''mid'', Some ''high''])] ''size''
      [''low'', ''mid''] =
     Inr [(''size'', ObjCol [Some ''low'', Some ''mid'', Some ''high'']),
          (''size_ordinal'', NumCol [Some 0, Some 1, None])]"
  by (simp add: ordinal_encode_def enumerate_map_def map_cells_def upt_rec)

section \<open>Statistical tests: proofs\<close>















section \<open>Random-forest training: proofs\<close>

lemma missing_names_Nil: "missing_names df cs = [] \<longleftrightarrow> (\<forall>c\<in>set cs. map_of df c \<noteq> None)"
  by (simp add: missing_names_def filter_empty_conv)

lemma nrows_take_rows: "nrows ((name, take_rows rows col) # df) = length rows"
  by (cases col) simp_all

lemma nrows_dropna_subset:
  assumes "dropna_subset data cols = Inr df" "data \<noteq> []"
  shows "nrows df = length (complete_rows data cols)"
proof -
  obtain name col rest where d: "data = (name, col) # rest"
    using assms(2) by (cases data) auto
  have "df = map (\<lambda>(name, col). (name, take_rows (complete_rows data cols) col)) data"
    using assms(1) by (auto simp: dropna_subset_def split: if_splits)
  then show ?thesis using d by (simp add: nrows_take_rows)
qed

lemma train_model_returns:
  "\<exists>r. train_model s f n d tn fns ne dp ts sd = Returned r"
  by (auto simp: train_model_def split: option.splits sum.splits)

lemma train_model_too_few_rows:
  assumes "truthy_nat n_clicks" "nrows data \<noteq> 0" "t \<noteq> []" "fs \<noteq> []"
    and "\<forall>c\<in>set (t # fs). map_of data c \<noteq> None"
    and "length (complete_rows data (t # fs)) < 10"
  shows "train_model stats fit_forest n_clicks data (Some t) fs ne dp ts sd =
           Returned (Status ''Not enough data after removing missing values. Need at least 10 rows.'')"
proof -
  have m: "missing_names data (t # fs) = []" using assms(5) by (simp only: missing_names_Nil)
  then obtain df where df: "dropna_subset data (t # fs) = Inr df"
    by (simp add: dropna_subset_def)
  have ne: "data \<noteq> []" using assms(2) by auto
  have "nrows df < 10" using nrows_dropna_subset[OF df ne] assms(6) by simp
  then have "train_model_body stats fit_forest data t fs ne dp ts sd =
           Inr (Status ''Not enough data after removing missing values. Need at least 10 rows.'')"
    using df by (simp add: train_model_body_def)
  then show ?thesis using assms(1-4) by (simp add: train_model_def)
qed

lemma train_model_guard:
  "\<not> truthy_nat n \<or> nrows d = 0 \<or> tn = None \<or> tn = Some [] \<or> fns = [] \<Longrightarrow>
   train_model s f n d tn fns ne dp ts sd = Returned Silent"
  by (auto simp: train_model_def split: option.splits)

text \<open>
  Claim C8, as the code has it. No call of \<^verbatim>\<open>train_model\<close> lets an exception out. When
  the button was clicked, the table has rows, a target is chosen and at least one
  feature is selected, and fewer than 10 rows remain after dropping the rows with a
  null in the target or in a feature column, the callback returns the message that at
  least 10 rows are needed. When the button was not clicked, or the table has no rows,
  or no target is chosen, or no feature is selected, it returns the silent outputs.
\<close>

theorem train_model_needs_ten_rows:
  assumes "truthy_nat n_clicks" and "nrows data \<noteq> 0" and "t \<noteq> []" and "fs \<noteq> []"
  shows "(\<forall>s f n d tn fns ne' dp' ts' sd'. \<exists>r. train_model s f n d tn fns ne' dp' ts' sd' = Returned r) \<and>
         ((\<forall>c\<in>set (t # fs). map_of data c \<noteq> None) \<and> length (complete_rows data (t # fs)) < 10 \<longrightarrow>
            train_model stats fit_forest n_clicks data (Some t) fs ne dp ts sd =
              Returned (Status ''Not enough data after removing missing values. Need at least 10 rows.'')) \<and>
         (\<forall>s f n d tn fns ne' dp' ts' sd'.
            \<not> truthy_nat n \<or> nrows d = 0 \<or> tn = None \<or> tn = Some [] \<or> fns = [] \<longrightarrow>
            train_model s f n d tn fns ne' dp' ts' sd' = Returned Silent)"
proof (intro conjI impI)
  show "\<forall>s f n d tn fns ne' dp' ts' sd'. \<exists>r. train_model s f n d tn fns ne' dp' ts' sd' = Returned r"
    using train_model_returns by blast
next
  assume h: "(\<forall>c\<in>set (t # fs). map_of data c \<noteq> None) \<and> length (complete_rows data (t # fs)) < 10"
  show "train_model stats fit_forest n_clicks data (Some t) fs ne dp ts sd =
          Returned (Status ''Not enough data after removing missing values. Need at least 10 rows.'')"
    using assms h by (intro train_model_too_few_rows) simp_all
next
  show "\<forall>s f n d tn fns ne' dp' ts' sd'.
          \<not> truthy_nat n \<or> nrows d = 0 \<or> tn = None \<or> tn = Some [] \<or> fns = [] \<longrightarrow>
          train_model s f n d tn fns ne' dp' ts' sd' = Returned Silent"
    using train_model_guard by blast
qed

theorem train_model_needs_ten_rows_witness:
  "truthy_nat (Some 1) \<and>
   nrows [(''t'', ObjCol [Some ''a'', None, Some ''b'']), (''f'', NumCol [Some (1::real), Some 2, None])] \<noteq> 0 \<and>
   complete_rows [(''t'', ObjCol [Some ''a'', None, Some ''b'']), (''f'', NumCol [Some (1::real), Some 2, None])]
     [''t'', ''f''] = [0] \<and>
   train_model binary64 unfitted_forest (Some 1)
     [(''t'', ObjCol [Some ''a'', None, Some ''b'']), (''f'', NumCol [Some 1, Some 2, None])]
     (Some ''t'') [''f''] 100 None (3 / 10) (Some 42) =
     Returned (Status ''Not enough data after removing missing values. Need at least 10 rows.'')"
proof -
  let ?d = "[(''t'', ObjCol [Some ''a'', None, Some ''b'']), (''f'', NumCol [Some (1::real), Some 2, None])]"
  have h1: "truthy_nat (Some 1)" by simp
  have h2: "nrows ?d \<noteq> 0" by simp
  have h3: "''t'' \<noteq> []" and h4: "[''f''] \<noteq> []" by simp_all
  have c: "complete_rows ?d [''t'', ''f''] = [0]" by (simp add: complete_rows_def upt_rec)
  have m: "\<forall>c\<in>set [''t'', ''f'']. map_of ?d c \<noteq> None" by simp
  have l: "length (complete_rows ?d [''t'', ''f'']) < 10" using c by simp
  have "train_model binary64 unfitted_forest (Some 1) ?d (Some ''t'') [''f''] 100 None (3 / 10) (Some 42) =
     Returned (Status ''Not enough data after removing missing values. Need at least 10 rows.'')"
    using train_model_needs_ten_rows[OF h1 h2 h3 h4, where stats = binary64 and fit_forest = unfitted_forest
        and ne = 100 and dp = None and ts = "3 / 10" and sd = "Some 42"] m l
    by blast
  with h1 h2 c show ?thesis by blast
qed

text \<open>
  The claim as it was stated fails at the first guard. With no feature selected a
  table of three rows, which leaves fewer than 10 rows, gives the silent outputs with
  the empty status and not the message; so does a table without rows.
\<close>

theorem train_model_guard_counterexample:
  "complete_rows [(''t'', ObjCol [Some ''a'', Some ''b'', Some ''a''])] [''t''] = [0, 1, 2] \<and>
   train_model binary64 unfitted_forest (Some 1) [(''t'', ObjCol [Some ''a'', Some ''b'', Some ''a''])]
     (Some ''t'') [] 100 None (3 / 10) (Some 42) = Returned Silent \<and>
   train_model binary64 unfitted_forest (Some 1) [] (Some ''t'') [''f''] 100 None (3 / 10) (Some 42) =
     Returned Silent"
  by (simp add: train_model_def complete_rows_def upt_rec)

section \<open>Prediction from manual input: proofs\<close>

lemma json_key_not_int: "json_key k \<noteq> IntKey i" "IntKey i \<noteq> json_key k"
  by (cases k; simp)+

lemma map_of_stored_int_key: "map_of (map (\<lambda>(k, v). (json_key k, v)) inverse_mapping) (IntKey i) = None"
  by (induction inverse_mapping) (auto simp: json_key_not_int)

lemma lookup_class_stored:
  "lookup_class (map (\<lambda>(k, v). (json_key k, v)) inverse_mapping) i = Inl (KeyErrorInt i)"
  by (simp add: lookup_class_def map_of_stored_int_key)

text \<open>
  Whatever is typed into the fields, a categorical model read back from the store
  never yields a predicted class.
\<close>

lemma stored_model_never_predicts_class:
  assumes "target_info mi = CategoricalTarget mapping inverse_mapping"
  shows "make_predictions_manual manual_values manual_ids (Some (dcc_store mi)) feature_info \<noteq>
           Returned (PredictedClass c fv)"
  using assms
  by (auto simp: make_predictions_manual_def manual_prediction_body_def dcc_store_def
      lookup_class_stored split: sum.splits if_splits)

text \<open>
  With the dictionary as \<^verbatim>\<open>train_model\<close> built it (integer keys, before it went
  through the store) the same call would show the first class.
\<close>

lemma unstored_model_predicts_first_class:
  "make_predictions_manual [NumberValue 3] [''size'']
     (Some \<lparr>target = ''species'', features = [''size''],
            target_info = make_target_info (ObjCol [Some ''cat'', Some ''dog'', Some ''cat'']),
            feature_importances = [(''size'', 1)], n_estimators = 100, max_depth = None,
            random_state = Some 42, test_size = 3 / 10\<rparr>)
     [(''size'', NumericInfo 2 1)] =
   Returned (PredictedClass ''cat'' [(''size'', Some 1)])"
  by (simp add: make_predictions_manual_def manual_prediction_body_def input_row_def
      process_input_def lookup_class_def feature_values_def top_features_def unique_def upt_rec)

text \<open>
  Claim C10 fails. For a model trained on the target values cat, dog, cat and read
  back from the store, the inverse mapping has the keys \<open>"0"\<close> and \<open>"1"\<close>; the manual
  path looks up the integer 0, the lookup raises \<^verbatim>\<open>KeyError\<close>, and the callback shows
  the alert \<^verbatim>\<open>Error making prediction: 0\<close> in place of the class cat.
\<close>

theorem manual_prediction_key_error:
  "target_info (dcc_store
     \<lparr>target = ''species'', features = [''size''],
      target_info = make_target_info (ObjCol [Some ''cat'', Some ''dog'', Some ''cat'']),
      feature_importances = [(''size'', 1)], n_estimators = 100, max_depth = None,
      random_state = Some 42, test_size = 3 / 10\<rparr>) =
     CategoricalTarget [(''cat'', 0), (''dog'', 1)] [(StrKey ''0'', ''cat''), (StrKey ''1'', ''dog'')] \<and>
   make_predictions_manual [NumberValue 3] [''size'']
     (Some (dcc_store
        \<lparr>target = ''species'', features = [''size''],
         target_info = make_target_info (ObjCol [Some ''cat'', Some ''dog'', Some ''cat'']),
         feature_importances = [(''size'', 1)], n_estimators = 100, max_depth = None,
         random_state = Some 42, test_size = 3 / 10\<rparr>))
     [(''size'', NumericInfo 2 1)] =
   Returned (Alert ''Error making prediction: 0'')"
  by (simp add: dcc_store_def make_predictions_manual_def manual_prediction_body_def input_row_def
      process_input_def lookup_class_def unique_def upt_rec str_nat.simps)

section \<open>Type detection: proofs\<close>















end
